theory Spec2Isabelle
  imports Main "HOL-Library.AList"
begin

section \<open>Values of the host language\<close>

text \<open>
  The constraint objects of \<^verbatim>\<open>media-utils.ts\<close> are plain JavaScript object literals.
  An object is an association list in insertion order, which is the order in which
  JavaScript enumerates string keys. Numbers are the integers the module uses (screen
  dimensions and the frame-rate cap).
\<close>

datatype jsval =
    JUndefined
  | JNull
  | JBool bool
  | JNum int
  | JStr string
  | JFun string
  | JObj "(string \<times> jsval) list"

text \<open>The thrown value of an exception.\<close>

datatype js_error = JsError string

text \<open>\<^verbatim>\<open>!!v\<close>: the truthiness of a value.\<close>

fun truthy :: "jsval \<Rightarrow> bool" where
  "truthy JUndefined = False"
| "truthy JNull = False"
| "truthy (JBool b) = b"
| "truthy (JNum n) = (n \<noteq> 0)"
| "truthy (JStr s) = (s \<noteq> [])"
| "truthy (JFun f) = True"
| "truthy (JObj ps) = True"


text \<open>
  \<^verbatim>\<open>o.k = v\<close> on the property list of an object: an existing key keeps its place, a
  new key goes to the end.
\<close>

definition set_prop :: "string \<Rightarrow> jsval \<Rightarrow> (string \<times> jsval) list \<Rightarrow> (string \<times> jsval) list" where
  "set_prop k v ps = AList.update k v ps"

text \<open>
  Reading an own property of a result, used to state what a returned object contains:
  \<open>None\<close> when the value is no object or has no such key.
\<close>

fun own_prop :: "jsval \<Rightarrow> string \<Rightarrow> jsval option" where
  "own_prop (JObj ps) k = map_of ps k"
| "own_prop v k = None"

section \<open>The ambient platform\<close>

text \<open>
  The module reads four ambient objects: \<^verbatim>\<open>browserama\<close> (the engine-detection library),
  \<^verbatim>\<open>window\<close>, the \<^verbatim>\<open>RTCPeerConnection\<close> constructor, and the module variable
  \<^verbatim>\<open>_hasTransceiverFunctionality\<close>.

  Lines 9 to 15 of the source declare \<^verbatim>\<open>window\<close> with \<^verbatim>\<open>navigator\<close> and
  \<^verbatim>\<open>mediaDevices\<close> present and only \<^verbatim>\<open>getDisplayMedia\<close> optional. Line 106 all the same
  tests \<^verbatim>\<open>window.navigator\<close> and \<^verbatim>\<open>window.navigator.mediaDevices\<close> before it reads
  \<^verbatim>\<open>getDisplayMedia\<close>, so the platform here may lack either of them: \<open>None\<close> is
  \<^verbatim>\<open>undefined\<close>.
\<close>

record browserama_lib =
  isChromeOrChromium :: bool

text \<open>
  \<^verbatim>\<open>getDisplayMedia?\<close> is a function or absent; \<^verbatim>\<open>getUserMedia\<close> belongs to
  \<^verbatim>\<open>MediaDevices\<close> and is always there. The value stored for a present function is its name.
\<close>

record mediaDevices_obj =
  getDisplayMedia :: "string option"

record navigator_obj =
  mediaDevices :: "mediaDevices_obj option"

record screen_obj =
  width :: int
  height :: int

record window_obj =
  navigator :: "navigator_obj option"
  screen :: screen_obj

text \<open>
  A constructed peer connection. Reading \<^verbatim>\<open>getTransceivers\<close> gives the property's
  value (\<open>JUndefined\<close> when the platform has none) or throws, when the property is an
  accessor that throws.
\<close>

record rtcPeerConnection =
  getTransceivers :: "js_error + jsval"

text \<open>\<^verbatim>\<open>new RTCPeerConnection()\<close> returns the object or throws.\<close>

record env =
  browserama :: browserama_lib
  window :: window_obj
  RTCPeerConnection :: "js_error + rtcPeerConnection"

text \<open>
  A call of a platform capture primitive. Both primitives return the promise the platform
  gives for the call, and the module returns that promise unchanged, so an acquisition
  entry point is modelled by the call it issues.
\<close>

datatype platform_call =
    GetUserMedia jsval
  | GetDisplayMedia jsval

section \<open>Constraint negotiation\<close>

text \<open>
  \<^verbatim>\<open>hasGetDisplayMedia\<close> (line 105): the three operands of \<^verbatim>\<open>&&\<close> from left to right.
  An operand that is \<^verbatim>\<open>undefined\<close> ends the conjunction with a falsy value; an object is
  truthy and the next operand is evaluated.
\<close>

definition hasGetDisplayMedia :: "env \<Rightarrow> bool" where
  "hasGetDisplayMedia e =
     (case navigator (window e) of
        None \<Rightarrow> False
      | Some nav \<Rightarrow>
          (case mediaDevices nav of
             None \<Rightarrow> False
           | Some md \<Rightarrow>
               (case getDisplayMedia md of
                  None \<Rightarrow> False
                | Some f \<Rightarrow> truthy (JFun f))))"

text \<open>\<^verbatim>\<open>getScreenShareConstraints\<close> (line 109).\<close>

definition getScreenShareConstraints :: "env \<Rightarrow> jsval" where
  "getScreenShareConstraints e =
     (if isChromeOrChromium (browserama e) then
        if hasGetDisplayMedia e then
          JObj [(''audio'', JBool False), (''video'', JBool True)]
        else
          JObj [(''audio'', JBool False),
                (''video'', JObj [(''mandatory'', JObj [
                   (''chromeMediaSource'', JStr ''desktop''),
                   (''maxWidth'', JNum (width (screen (window e)))),
                   (''maxHeight'', JNum (height (screen (window e)))),
                   (''maxFrameRate'', JNum 15)])])]
      else
        JObj [(''audio'', JBool False),
              (''video'', JObj [(''mediaSource'', JStr ''window'')])])"

text \<open>
  \<^verbatim>\<open>getVideoConstraints\<close> (line 139). The local object \<^verbatim>\<open>constraints\<close> has the two keys
  \<^verbatim>\<open>video\<close> and \<^verbatim>\<open>audio\<close> from its literal on; each assignment of the source is one
  binding here, in the source's order.
\<close>

definition getVideoConstraints :: "env \<Rightarrow> bool \<Rightarrow> jsval" where
  "getVideoConstraints e cameraOnly =
     (let video0 = [];
          audio0 = JObj [];
          video1 = (if isChromeOrChromium (browserama e)
                    then set_prop ''googNoiseReduction'' (JBool True) video0 else video0);
          audio1 = (if isChromeOrChromium (browserama e)
                    then JObj [(''googAudioMirroring'', JBool False),
                               (''autoGainControl'', JBool True),
                               (''echoCancellation'', JBool True),
                               (''noiseSuppression'', JBool True),
                               (''googDucking'', JBool False),
                               (''googHighpassFilter'', JBool True)]
                    else audio0);
          audio2 = (if cameraOnly then JBool False else audio1)
      in JObj [(''video'', JObj video1), (''audio'', audio2)])"

section \<open>Acquisition entry points\<close>

text \<open>
  The expression \<^verbatim>\<open>window.navigator.mediaDevices.m\<close> of lines 25 and 28, up to the object
  whose member \<^verbatim>\<open>m\<close> is read. Reading a property of \<^verbatim>\<open>undefined\<close> throws a
  \<^verbatim>\<open>TypeError\<close>: at \<^verbatim>\<open>.mediaDevices\<close> when there is no navigator, at \<^verbatim>\<open>.m\<close> when
  there is no \<^verbatim>\<open>mediaDevices\<close>.
\<close>

definition window_navigator_mediaDevices :: "env \<Rightarrow> js_error + mediaDevices_obj" where
  "window_navigator_mediaDevices e =
     (case navigator (window e) of
        None \<Rightarrow> Inl (JsError ''TypeError: cannot read properties of undefined (mediaDevices)'')
      | Some nav \<Rightarrow>
          (case mediaDevices nav of
             None \<Rightarrow> Inl (JsError ''TypeError: cannot read properties of undefined'')
           | Some md \<Rightarrow> Inr md))"

text \<open>
  \<^verbatim>\<open>startDisplayMedia\<close> (line 21): the capture call it issues, or the exception it throws
  before any call. Line 25 calls \<^verbatim>\<open>getDisplayMedia\<close>, which throws when the member is not
  a function; line 28 calls \<^verbatim>\<open>getUserMedia\<close>, which every \<^verbatim>\<open>MediaDevices\<close> object has.
\<close>

definition startDisplayMedia :: "env \<Rightarrow> js_error + platform_call" where
  "startDisplayMedia e =
     (let constraints = getScreenShareConstraints e
      in if hasGetDisplayMedia e then
           (case window_navigator_mediaDevices e of
              Inl err \<Rightarrow> Inl err
            | Inr md \<Rightarrow>
                (case getDisplayMedia md of
                   None \<Rightarrow> Inl (JsError ''TypeError: getDisplayMedia is not a function'')
                 | Some f \<Rightarrow> Inr (GetDisplayMedia constraints)))
         else
           (case window_navigator_mediaDevices e of
              Inl err \<Rightarrow> Inl err
            | Inr md \<Rightarrow> Inr (GetUserMedia constraints)))"



section \<open>Capability probing\<close>

text \<open>
  The module state: \<^verbatim>\<open>_hasTransceiverFunctionality\<close> (\<open>None\<close> is \<^verbatim>\<open>null\<close>), and the
  number of times the module has evaluated \<^verbatim>\<open>new RTCPeerConnection()\<close> so far, which
  records the effect of running the probe, whether the constructor returned or threw.
\<close>

record module_state =
  hasTransceiverFunctionality :: "bool option"
  constructed :: nat

text \<open>The body of the \<^verbatim>\<open>try\<close> block (lines 82 to 84): the value it would assign, or the exception.\<close>

definition probeTransceivers :: "env \<Rightarrow> js_error + bool" where
  "probeTransceivers e =
     (case RTCPeerConnection e of
        Inl err \<Rightarrow> Inl err
      | Inr dummyRtcPeerConnection \<Rightarrow>
          (case getTransceivers dummyRtcPeerConnection of
             Inl err \<Rightarrow> Inl err
           | Inr f \<Rightarrow> Inr (truthy f)))"

text \<open>
  \<^verbatim>\<open>checkHasTransceiverFunctionality\<close> (line 75): the returned value and the new state.
  Both the \<^verbatim>\<open>try\<close> block and the \<^verbatim>\<open>catch\<close> block assign the flag, and the final
  \<^verbatim>\<open>return\<close> reads the value just assigned.
\<close>

definition checkHasTransceiverFunctionality :: "env \<Rightarrow> module_state \<Rightarrow> bool \<times> module_state" where
  "checkHasTransceiverFunctionality e s =
     (case hasTransceiverFunctionality s of
        Some cached \<Rightarrow> (cached, s)
      | None \<Rightarrow>
          (let s1 = s\<lparr>constructed := Suc (constructed s)\<rparr>;
               assigned = (case probeTransceivers e of
                             Inr b \<Rightarrow> b
                           | Inl err \<Rightarrow> False);
               s2 = s1\<lparr>hasTransceiverFunctionality := Some assigned\<rparr>
           in (assigned, s2)))"

text \<open>
  \<^verbatim>\<open>checkAllTracksHaveEnded\<close> (line 91): \<^verbatim>\<open>forEach\<close> over the tracks with the flag as
  the accumulator.
\<close>

record mediaStreamTrack =
  readyState :: string

record mediaStream =
  getTracks :: "mediaStreamTrack list"

definition checkAllTracksHaveEnded :: "mediaStream \<Rightarrow> bool" where
  "checkAllTracksHaveEnded stream =
     fold (\<lambda>t allTracksHaveEnded. readyState t = ''ended'' \<and> allTracksHaveEnded)
          (getTracks stream) True"

section \<open>Concrete platforms\<close>

text \<open>
  A platform with \<^verbatim>\<open>navigator.mediaDevices\<close>, given by its five observable parts: the
  engine flag, the display-media primitive, the screen dimensions and the outcome of
  constructing a peer connection.
\<close>

definition platform :: "bool \<Rightarrow> string option \<Rightarrow> int \<Rightarrow> int \<Rightarrow> js_error + rtcPeerConnection \<Rightarrow> env" where
  "platform chrome gdm w h pc =
     \<lparr>browserama = \<lparr>isChromeOrChromium = chrome\<rparr>,
      window = \<lparr>navigator = Some \<lparr>mediaDevices = Some \<lparr>getDisplayMedia = gdm\<rparr>\<rparr>,
                screen = \<lparr>width = w, height = h\<rparr>\<rparr>,
      RTCPeerConnection = pc\<rparr>"

text \<open>A peer connection with the transceiver method, one without it, and a constructor that throws.\<close>

definition pc_with_transceivers :: "js_error + rtcPeerConnection" where
  "pc_with_transceivers = Inr \<lparr>getTransceivers = Inr (JFun ''getTransceivers'')\<rparr>"

definition pc_without_transceivers :: "js_error + rtcPeerConnection" where
  "pc_without_transceivers = Inr \<lparr>getTransceivers = Inr JUndefined\<rparr>"

definition pc_throws :: "js_error + rtcPeerConnection" where
  "pc_throws = Inl (JsError ''RTCPeerConnection is not defined'')"

text \<open>The module state at load time: the flag is \<^verbatim>\<open>null\<close> and nothing has been constructed.\<close>

definition initial_state :: module_state where
  "initial_state = \<lparr>hasTransceiverFunctionality = None, constructed = 0\<rparr>"

text \<open>
  A platform whose navigator has no \<^verbatim>\<open>mediaDevices\<close>, as a page served over an insecure
  origin sees it.
\<close>

definition platform_without_mediaDevices :: "bool \<Rightarrow> int \<Rightarrow> int \<Rightarrow> env" where
  "platform_without_mediaDevices chrome w h =
     \<lparr>browserama = \<lparr>isChromeOrChromium = chrome\<rparr>,
      window = \<lparr>navigator = Some \<lparr>mediaDevices = None\<rparr>,
                screen = \<lparr>width = w, height = h\<rparr>\<rparr>,
      RTCPeerConnection = pc_throws\<rparr>"

section \<open>Auxiliary facts\<close>

lemma hasGetDisplayMedia_iff:
  "hasGetDisplayMedia e =
     (\<exists>nav md f. navigator (window e) = Some nav \<and> mediaDevices nav = Some md
                 \<and> getDisplayMedia md = Some f)"
  by (auto simp: hasGetDisplayMedia_def split: option.splits)

lemma mediaDevices_reached:
  "navigator (window e) = Some nav \<Longrightarrow> mediaDevices nav = Some md \<Longrightarrow>
   window_navigator_mediaDevices e = Inr md"
  by (simp add: window_navigator_mediaDevices_def)

lemma startDisplayMedia_without_mediaDevices:
  "navigator (window e) = None
     \<or> (\<exists>nav. navigator (window e) = Some nav \<and> mediaDevices nav = None) \<Longrightarrow>
   \<not> hasGetDisplayMedia e \<and> (\<exists>err. startDisplayMedia e = Inl err)"
  by (auto simp: startDisplayMedia_def hasGetDisplayMedia_def window_navigator_mediaDevices_def)

lemma fold_ended_conj:
  "fold (\<lambda>t acc. P t \<and> acc) ts b = (b \<and> list_all P ts)"
  by (induction ts arbitrary: b) auto

lemma check_cached:
  "hasTransceiverFunctionality s = Some b \<Longrightarrow> checkHasTransceiverFunctionality e s = (b, s)"
  by (simp add: checkHasTransceiverFunctionality_def)

lemma check_sets_flag:
  "hasTransceiverFunctionality (snd (checkHasTransceiverFunctionality e s))
     = Some (fst (checkHasTransceiverFunctionality e s))"
  by (simp add: checkHasTransceiverFunctionality_def Let_def split: option.split sum.split)

lemma check_uncached:
  "hasTransceiverFunctionality s = None \<Longrightarrow>
   checkHasTransceiverFunctionality e s =
     (let b = (case probeTransceivers e of Inr v \<Rightarrow> v | Inl err \<Rightarrow> False)
      in (b, s\<lparr>hasTransceiverFunctionality := Some b, constructed := Suc (constructed s)\<rparr>))"
  by (simp add: checkHasTransceiverFunctionality_def Let_def split: sum.split)

section \<open>Screen-share constraints\<close>

text \<open>
  C1. Whatever the engine and whether or not the platform has the display-media
  primitive, the object returned by \<open>getScreenShareConstraints\<close> has the property
  \<^verbatim>\<open>audio\<close> with the value \<^verbatim>\<open>false\<close>.
\<close>

theorem getScreenShareConstraints_audio_false:
  "own_prop (getScreenShareConstraints e) ''audio'' = Some (JBool False)"
  by (simp add: getScreenShareConstraints_def)

text \<open>
  C2. On a Chromium-family engine with the display-media primitive the result is exactly
  \<^verbatim>\<open>{audio: false, video: true}\<close>. On a Chromium-family engine without it the result is
  the legacy desktop-capture object: audio off, and a video part whose \<^verbatim>\<open>mandatory\<close>
  object holds the source marker \<^verbatim>\<open>'desktop'\<close>, the screen's width and height as maximum
  width and height, and the frame-rate cap 15. On any other engine the result is exactly
  \<^verbatim>\<open>{audio: false, video: {mediaSource: 'window'}}\<close>.
\<close>

theorem getScreenShareConstraints_shapes:
  "(isChromeOrChromium (browserama e) \<and> hasGetDisplayMedia e \<longrightarrow>
      getScreenShareConstraints e = JObj [(''audio'', JBool False), (''video'', JBool True)])
   \<and> (isChromeOrChromium (browserama e) \<and> \<not> hasGetDisplayMedia e \<longrightarrow>
      getScreenShareConstraints e =
        JObj [(''audio'', JBool False),
              (''video'', JObj [(''mandatory'', JObj [
                 (''chromeMediaSource'', JStr ''desktop''),
                 (''maxWidth'', JNum (width (screen (window e)))),
                 (''maxHeight'', JNum (height (screen (window e)))),
                 (''maxFrameRate'', JNum 15)])])]
      \<and> (\<exists>v m. own_prop (getScreenShareConstraints e) ''video'' = Some v
             \<and> own_prop v ''mandatory'' = Some m
             \<and> own_prop m ''chromeMediaSource'' = Some (JStr ''desktop'')
             \<and> own_prop m ''maxWidth'' = Some (JNum (width (screen (window e))))
             \<and> own_prop m ''maxHeight'' = Some (JNum (height (screen (window e))))
             \<and> own_prop m ''maxFrameRate'' = Some (JNum 15)))
   \<and> (\<not> isChromeOrChromium (browserama e) \<longrightarrow>
      getScreenShareConstraints e =
        JObj [(''audio'', JBool False), (''video'', JObj [(''mediaSource'', JStr ''window'')])])"
  by (simp add: getScreenShareConstraints_def)

theorem getScreenShareConstraints_shapes_witness:
  "getScreenShareConstraints (platform True (Some ''getDisplayMedia'') 1920 1080 pc_throws)
     = JObj [(''audio'', JBool False), (''video'', JBool True)]
   \<and> getScreenShareConstraints (platform True None 1920 1080 pc_throws)
     = JObj [(''audio'', JBool False),
             (''video'', JObj [(''mandatory'', JObj [
                (''chromeMediaSource'', JStr ''desktop''),
                (''maxWidth'', JNum 1920),
                (''maxHeight'', JNum 1080),
                (''maxFrameRate'', JNum 15)])])]
   \<and> getScreenShareConstraints (platform False (Some ''getDisplayMedia'') 1920 1080 pc_throws)
     = JObj [(''audio'', JBool False), (''video'', JObj [(''mediaSource'', JStr ''window'')])]
   \<and> getScreenShareConstraints (platform False None 1920 1080 pc_throws)
     = JObj [(''audio'', JBool False), (''video'', JObj [(''mediaSource'', JStr ''window'')])]"
  using getScreenShareConstraints_shapes [of "platform True (Some ''getDisplayMedia'') 1920 1080 pc_throws"]
        getScreenShareConstraints_shapes [of "platform True None 1920 1080 pc_throws"]
        getScreenShareConstraints_shapes [of "platform False (Some ''getDisplayMedia'') 1920 1080 pc_throws"]
        getScreenShareConstraints_shapes [of "platform False None 1920 1080 pc_throws"]
  by (simp add: platform_def hasGetDisplayMedia_def)

section \<open>Camera and microphone constraints\<close>

text \<open>
  C3. With \<open>cameraOnly\<close> true the object returned by \<open>getVideoConstraints\<close> has
  \<^verbatim>\<open>audio: false\<close> on every engine; on a Chromium-family engine the audio bundle that was
  assigned first is replaced by \<^verbatim>\<open>false\<close>.
\<close>

theorem getVideoConstraints_cameraOnly_audio_false:
  "own_prop (getVideoConstraints e True) ''audio'' = Some (JBool False)"
  by (simp add: getVideoConstraints_def)

text \<open>
  C4. With \<open>cameraOnly\<close> false, a Chromium-family engine gets an audio object that is not
  empty and holds \<^verbatim>\<open>echoCancellation: true\<close>, \<^verbatim>\<open>noiseSuppression: true\<close> and
  \<^verbatim>\<open>autoGainControl: true\<close> among its six hints; any other engine gets the empty audio
  object \<^verbatim>\<open>{}\<close>.
\<close>

theorem getVideoConstraints_audio_bundle:
  "(isChromeOrChromium (browserama e) \<longrightarrow>
      (\<exists>a. own_prop (getVideoConstraints e False) ''audio'' = Some a
           \<and> a = JObj [(''googAudioMirroring'', JBool False),
                       (''autoGainControl'', JBool True),
                       (''echoCancellation'', JBool True),
                       (''noiseSuppression'', JBool True),
                       (''googDucking'', JBool False),
                       (''googHighpassFilter'', JBool True)]
           \<and> a \<noteq> JObj []
           \<and> own_prop a ''echoCancellation'' = Some (JBool True)
           \<and> own_prop a ''noiseSuppression'' = Some (JBool True)
           \<and> own_prop a ''autoGainControl'' = Some (JBool True)))
   \<and> (\<not> isChromeOrChromium (browserama e) \<longrightarrow>
      own_prop (getVideoConstraints e False) ''audio'' = Some (JObj [])
      \<and> getVideoConstraints e False = JObj [(''video'', JObj []), (''audio'', JObj [])])"
  by (simp add: getVideoConstraints_def)

theorem getVideoConstraints_audio_bundle_witness:
  "(\<exists>a. own_prop (getVideoConstraints (platform True None 1280 720 pc_throws) False) ''audio'' = Some a
        \<and> a \<noteq> JObj []
        \<and> own_prop a ''echoCancellation'' = Some (JBool True))
   \<and> own_prop (getVideoConstraints (platform False None 1280 720 pc_throws) False) ''audio''
       = Some (JObj [])"
  using getVideoConstraints_audio_bundle [of "platform True None 1280 720 pc_throws"]
        getVideoConstraints_audio_bundle [of "platform False None 1280 720 pc_throws"]
  by (simp add: platform_def)

section \<open>Capability probing\<close>

text \<open>
  C5. \<open>checkHasTransceiverFunctionality\<close> is memoised. After any first call the flag
  holds the value that call returned. A second call, on a platform whose probe may answer
  differently, returns that same value and leaves the state as it was: the flag is not
  recomputed and no further peer connection is constructed. In general, once the flag is
  \<^verbatim>\<open>true\<close> or \<^verbatim>\<open>false\<close>, every call returns it and changes nothing, and so does
  every sequence of calls.
\<close>

theorem checkHasTransceiverFunctionality_memoized:
  "hasTransceiverFunctionality (snd (checkHasTransceiverFunctionality e1 s))
     = Some (fst (checkHasTransceiverFunctionality e1 s))
   \<and> checkHasTransceiverFunctionality e2 (snd (checkHasTransceiverFunctionality e1 s))
     = (fst (checkHasTransceiverFunctionality e1 s), snd (checkHasTransceiverFunctionality e1 s))
   \<and> (hasTransceiverFunctionality s = Some b \<longrightarrow>
        checkHasTransceiverFunctionality e s = (b, s)
        \<and> fold (\<lambda>e' st. snd (checkHasTransceiverFunctionality e' st)) es s = s)"
proof -
  let ?r = "checkHasTransceiverFunctionality e1 s"
  have flag: "hasTransceiverFunctionality (snd ?r) = Some (fst ?r)"
    by (rule check_sets_flag)
  have again: "checkHasTransceiverFunctionality e2 (snd ?r) = (fst ?r, snd ?r)"
    using flag by (rule check_cached)
  have many: "fold (\<lambda>e' st. snd (checkHasTransceiverFunctionality e' st)) es s = s"
    if "hasTransceiverFunctionality s = Some b"
    using that by (induction es) (simp_all add: check_cached)
  show ?thesis
    using flag again many by (simp add: check_cached)
qed

theorem checkHasTransceiverFunctionality_memoized_witness:
  "checkHasTransceiverFunctionality (platform True None 800 600 pc_with_transceivers) initial_state
     = (True, \<lparr>hasTransceiverFunctionality = Some True, constructed = 1\<rparr>)
   \<and> checkHasTransceiverFunctionality (platform True None 800 600 pc_throws)
       \<lparr>hasTransceiverFunctionality = Some True, constructed = 1\<rparr>
     = (True, \<lparr>hasTransceiverFunctionality = Some True, constructed = 1\<rparr>)
   \<and> checkHasTransceiverFunctionality (platform True None 800 600 pc_throws) initial_state
     = (False, \<lparr>hasTransceiverFunctionality = Some False, constructed = 1\<rparr>)"
  using checkHasTransceiverFunctionality_memoized
          [of "platform True None 800 600 pc_with_transceivers" initial_state
              "platform True None 800 600 pc_throws"
              True "platform True None 800 600 pc_throws" "[]"]
        checkHasTransceiverFunctionality_memoized
          [of "platform True None 800 600 pc_with_transceivers"
              "\<lparr>hasTransceiverFunctionality = Some True, constructed = 1\<rparr>"
              "platform True None 800 600 pc_throws"
              True "platform True None 800 600 pc_throws" "[]"]
  by (simp add: checkHasTransceiverFunctionality_def probeTransceivers_def platform_def
        pc_with_transceivers_def pc_throws_def initial_state_def)

text \<open>
  C6. On a first call (the flag is still \<^verbatim>\<open>null\<close>), when constructing the peer
  connection throws, or when reading \<^verbatim>\<open>getTransceivers\<close> from it throws, the function
  returns \<^verbatim>\<open>false\<close> and stores \<^verbatim>\<open>false\<close> in the flag; the exception does not reach the
  caller. On every platform and in every state the call returns a boolean, and that
  boolean is the flag afterwards.
\<close>

theorem checkHasTransceiverFunctionality_swallows_exception:
  "(hasTransceiverFunctionality s = None \<and>
      (RTCPeerConnection e = Inl err
       \<or> (\<exists>dummy. RTCPeerConnection e = Inr dummy \<and> getTransceivers dummy = Inl err)) \<longrightarrow>
      probeTransceivers e = Inl err
      \<and> checkHasTransceiverFunctionality e s
          = (False, s\<lparr>hasTransceiverFunctionality := Some False,
                      constructed := Suc (constructed s)\<rparr>))
   \<and> hasTransceiverFunctionality (snd (checkHasTransceiverFunctionality e s))
       = Some (fst (checkHasTransceiverFunctionality e s))"
proof -
  have caught: "probeTransceivers e = Inl err
      \<and> checkHasTransceiverFunctionality e s
          = (False, s\<lparr>hasTransceiverFunctionality := Some False,
                      constructed := Suc (constructed s)\<rparr>)"
    if null: "hasTransceiverFunctionality s = None"
    and thrown: "RTCPeerConnection e = Inl err
       \<or> (\<exists>dummy. RTCPeerConnection e = Inr dummy \<and> getTransceivers dummy = Inl err)"
  proof -
    from thrown have "probeTransceivers e = Inl err"
      by (auto simp: probeTransceivers_def)
    then show ?thesis
      using check_uncached [OF null, of e] by simp
  qed
  then show ?thesis
    using check_sets_flag [of e s] by blast
qed

theorem checkHasTransceiverFunctionality_swallows_exception_witness:
  "hasTransceiverFunctionality initial_state = None
   \<and> RTCPeerConnection (platform False None 800 600 pc_throws)
       = Inl (JsError ''RTCPeerConnection is not defined'')
   \<and> checkHasTransceiverFunctionality (platform False None 800 600 pc_throws) initial_state
       = (False, \<lparr>hasTransceiverFunctionality = Some False, constructed = 1\<rparr>)
   \<and> checkHasTransceiverFunctionality
       (platform False None 800 600 (Inr \<lparr>getTransceivers = Inl (JsError ''illegal invocation'')\<rparr>))
       initial_state
       = (False, \<lparr>hasTransceiverFunctionality = Some False, constructed = 1\<rparr>)"
  using checkHasTransceiverFunctionality_swallows_exception
          [of initial_state "platform False None 800 600 pc_throws"
              "JsError ''RTCPeerConnection is not defined''"]
        checkHasTransceiverFunctionality_swallows_exception
          [of initial_state
              "platform False None 800 600 (Inr \<lparr>getTransceivers = Inl (JsError ''illegal invocation'')\<rparr>)"
              "JsError ''illegal invocation''"]
  by (simp add: platform_def pc_throws_def initial_state_def)

text \<open>
  C7. \<open>checkAllTracksHaveEnded\<close> returns true exactly when every track of the stream has
  the ready state \<^verbatim>\<open>'ended'\<close>: true for a stream without tracks, true when all tracks have
  ended, false as soon as one track has another ready state.
\<close>

theorem checkAllTracksHaveEnded_iff:
  "checkAllTracksHaveEnded stream = (\<forall>t \<in> set (getTracks stream). readyState t = ''ended'')"
  by (simp add: checkAllTracksHaveEnded_def fold_ended_conj list_all_iff)

theorem checkAllTracksHaveEnded_iff_witness:
  "checkAllTracksHaveEnded \<lparr>getTracks = []\<rparr>
   \<and> checkAllTracksHaveEnded
       \<lparr>getTracks = [\<lparr>readyState = ''ended''\<rparr>, \<lparr>readyState = ''ended''\<rparr>]\<rparr>
   \<and> \<not> checkAllTracksHaveEnded
       \<lparr>getTracks = [\<lparr>readyState = ''ended''\<rparr>, \<lparr>readyState = ''live''\<rparr>]\<rparr>
   \<and> \<not> checkAllTracksHaveEnded
       \<lparr>getTracks = [\<lparr>readyState = ''live''\<rparr>, \<lparr>readyState = ''ended''\<rparr>]\<rparr>"
  using checkAllTracksHaveEnded_iff [of "\<lparr>getTracks = []\<rparr>"]
        checkAllTracksHaveEnded_iff
          [of "\<lparr>getTracks = [\<lparr>readyState = ''ended''\<rparr>, \<lparr>readyState = ''ended''\<rparr>]\<rparr>"]
        checkAllTracksHaveEnded_iff
          [of "\<lparr>getTracks = [\<lparr>readyState = ''ended''\<rparr>, \<lparr>readyState = ''live''\<rparr>]\<rparr>"]
        checkAllTracksHaveEnded_iff
          [of "\<lparr>getTracks = [\<lparr>readyState = ''live''\<rparr>, \<lparr>readyState = ''ended''\<rparr>]\<rparr>"]
  by simp

section \<open>Acquisition\<close>


text \<open>
  C9 as stated fails. On a platform whose navigator has no \<^verbatim>\<open>mediaDevices\<close> the feature
  test of line 106 is false, and the fallback of line 28 reads \<^verbatim>\<open>getUserMedia\<close> from
  \<^verbatim>\<open>undefined\<close>: \<open>startDisplayMedia\<close> throws and issues no capture call, so the
  degraded path is an error there.
\<close>

theorem startDisplayMedia_fallback_counterexample:
  "\<not> hasGetDisplayMedia (platform_without_mediaDevices True 1920 1080)
   \<and> startDisplayMedia (platform_without_mediaDevices True 1920 1080)
       = Inl (JsError ''TypeError: cannot read properties of undefined'')
   \<and> startDisplayMedia (platform_without_mediaDevices True 1920 1080)
       \<noteq> Inr (GetUserMedia
                (getScreenShareConstraints (platform_without_mediaDevices True 1920 1080)))"
  by (simp add: startDisplayMedia_def hasGetDisplayMedia_def window_navigator_mediaDevices_def
        platform_without_mediaDevices_def)

text \<open>
  C9, amended. \<open>startDisplayMedia\<close> computes the screen-share constraints and calls the
  display-media primitive with them when the feature test finds the primitive. When the
  test does not find it and \<^verbatim>\<open>window.navigator.mediaDevices\<close> is there, as the declared
  type of \<^verbatim>\<open>window\<close> has it, the function calls the user-media primitive with the same
  constraints and throws nothing. With \<^verbatim>\<open>mediaDevices\<close> there, the feature test is
  true exactly when \<^verbatim>\<open>getDisplayMedia\<close> is.
\<close>

theorem startDisplayMedia_dispatch:
  "(hasGetDisplayMedia e \<longrightarrow>
      startDisplayMedia e = Inr (GetDisplayMedia (getScreenShareConstraints e)))
   \<and> (\<not> hasGetDisplayMedia e
       \<and> navigator (window e) = Some nav \<and> mediaDevices nav = Some md \<longrightarrow>
      startDisplayMedia e = Inr (GetUserMedia (getScreenShareConstraints e)))
   \<and> (navigator (window e) = Some nav \<and> mediaDevices nav = Some md \<longrightarrow>
      hasGetDisplayMedia e = (getDisplayMedia md \<noteq> None))"
proof -
  have native: "startDisplayMedia e = Inr (GetDisplayMedia (getScreenShareConstraints e))"
    if "hasGetDisplayMedia e"
  proof -
    from that obtain nav' md' f
      where "navigator (window e) = Some nav'" "mediaDevices nav' = Some md'"
        and f: "getDisplayMedia md' = Some f"
      unfolding hasGetDisplayMedia_iff by blast
    then have "window_navigator_mediaDevices e = Inr md'"
      by (simp add: mediaDevices_reached)
    with that f show ?thesis
      by (simp add: startDisplayMedia_def)
  qed
  have fallback: "startDisplayMedia e = Inr (GetUserMedia (getScreenShareConstraints e))"
    if "\<not> hasGetDisplayMedia e" "navigator (window e) = Some nav" "mediaDevices nav = Some md"
    using that by (simp add: startDisplayMedia_def mediaDevices_reached)
  have test: "hasGetDisplayMedia e = (getDisplayMedia md \<noteq> None)"
    if "navigator (window e) = Some nav" "mediaDevices nav = Some md"
    using that by (simp add: hasGetDisplayMedia_def split: option.split)
  show ?thesis
    using native fallback test by blast
qed

theorem startDisplayMedia_dispatch_witness:
  "hasGetDisplayMedia (platform True (Some ''getDisplayMedia'') 1920 1080 pc_throws)
   \<and> startDisplayMedia (platform True (Some ''getDisplayMedia'') 1920 1080 pc_throws)
     = Inr (GetDisplayMedia (JObj [(''audio'', JBool False), (''video'', JBool True)]))
   \<and> \<not> hasGetDisplayMedia (platform False None 1920 1080 pc_throws)
   \<and> startDisplayMedia (platform False None 1920 1080 pc_throws)
     = Inr (GetUserMedia (JObj [(''audio'', JBool False),
                                (''video'', JObj [(''mediaSource'', JStr ''window'')])]))
   \<and> \<not> hasGetDisplayMedia (platform True None 1920 1080 pc_throws)
   \<and> startDisplayMedia (platform True None 1920 1080 pc_throws)
     = Inr (GetUserMedia (JObj [(''audio'', JBool False),
             (''video'', JObj [(''mandatory'', JObj [
                (''chromeMediaSource'', JStr ''desktop''),
                (''maxWidth'', JNum 1920),
                (''maxHeight'', JNum 1080),
                (''maxFrameRate'', JNum 15)])])]))"
  using startDisplayMedia_dispatch
          [of "platform True (Some ''getDisplayMedia'') 1920 1080 pc_throws"
              "\<lparr>mediaDevices = Some \<lparr>getDisplayMedia = Some ''getDisplayMedia''\<rparr>\<rparr>"
              "\<lparr>getDisplayMedia = Some ''getDisplayMedia''\<rparr>"]
        startDisplayMedia_dispatch
          [of "platform False None 1920 1080 pc_throws"
              "\<lparr>mediaDevices = Some \<lparr>getDisplayMedia = None\<rparr>\<rparr>"
              "\<lparr>getDisplayMedia = None\<rparr>"]
        startDisplayMedia_dispatch
          [of "platform True None 1920 1080 pc_throws"
              "\<lparr>mediaDevices = Some \<lparr>getDisplayMedia = None\<rparr>\<rparr>"
              "\<lparr>getDisplayMedia = None\<rparr>"]
  by (simp add: platform_def getScreenShareConstraints_def hasGetDisplayMedia_def)



end
